theory Spec2Isabelle
  imports Main
begin

section \<open>The RLS policy tester: session state\<close>

text \<open>
  The component \<^verbatim>\<open>RLSTester\<close> (src/components/RLSTester.tsx) keeps four pieces of React
  state. Every handler below is a function from the state it closes over to the state
  after all of its setter calls have been applied, in the order in which the handler
  issues them.
\<close>

record session =
  input :: string
  "output" :: string
  error :: string
  copied :: bool

text \<open>
  The right-hand panel of the JSX is a three-way conditional on \<^verbatim>\<open>error\<close> and
  \<^verbatim>\<open>output\<close> (\<^verbatim>\<open>error ? ... : output ? ... : ...\<close>); the copy button is rendered under
  \<^verbatim>\<open>output && ...\<close>. An empty string is falsy.
\<close>

datatype panel = ErrorPanel string | SqlPanel string | Placeholder

definition result_panel :: "session \<Rightarrow> panel" where
  "result_panel s =
     (if error s \<noteq> [] then ErrorPanel (error s)
      else if output s \<noteq> [] then SqlPanel (output s)
      else Placeholder)"

definition copy_button_shown :: "session \<Rightarrow> bool" where
  "copy_button_shown s \<longleftrightarrow> output s \<noteq> []"

section \<open>JavaScript values and the outcome of running a snippet\<close>

text \<open>
  \<^verbatim>\<open>executeCode\<close> looks at the value a snippet produces in three ways: \<^verbatim>\<open>typeof\<close> of a
  returned value, and \<^verbatim>\<open>instanceof Error\<close> and the read of \<^verbatim>\<open>.message\<close> on a thrown one.
  The snippet is arbitrary JavaScript, so the thrown value need not be an ordinary
  object: its \<^verbatim>\<open>message\<close> may be an accessor property or hold any value, and the value may
  be a proxy whose prototype lookup runs code. An ordinary \<^verbatim>\<open>Error\<close> instance carries its
  \<^verbatim>\<open>name\<close> and its string \<^verbatim>\<open>message\<close>; a crafted object carries what \<^verbatim>\<open>instanceof Error\<close>
  does on it and what reading its \<^verbatim>\<open>message\<close> does, and is not callable. A callable
  carries a label only.

  Constructing the function from the source text and calling it either returns a value,
  throws a value (a \<^verbatim>\<open>SyntaxError\<close> from the \<^verbatim>\<open>Function\<close> constructor included), or never
  comes back: there is no timeout around the call. A property read completes in the same
  three ways.
\<close>

datatype js_value =
    JSUndefined
  | JSNull
  | JSBoolean bool
  | JSNumber int
  | JSBigInt int
  | JSString string
  | JSSymbol string
  | JSFunction string
  | JSObject "(string \<times> js_value) list"
  | JSError string string
  | JSCrafted probe completion
and probe = IsError | NotError | ProbeThrows js_value | ProbeDiverges
and completion = Returns js_value | Throws js_value | Diverges

fun typeof :: "js_value \<Rightarrow> string" where
  "typeof JSUndefined = ''undefined''"
| "typeof JSNull = ''object''"
| "typeof (JSBoolean b) = ''boolean''"
| "typeof (JSNumber n) = ''number''"
| "typeof (JSBigInt n) = ''bigint''"
| "typeof (JSString t) = ''string''"
| "typeof (JSSymbol d) = ''symbol''"
| "typeof (JSFunction f) = ''function''"
| "typeof (JSObject props) = ''object''"
| "typeof (JSError nm msg) = ''object''"
| "typeof (JSCrafted p m) = ''object''"

text \<open>
  \<^verbatim>\<open>err instanceof Error\<close>: true on an \<^verbatim>\<open>Error\<close> instance, false on primitives and on
  plain objects, and whatever the crafted object makes of it.
\<close>

fun instanceof_Error :: "js_value \<Rightarrow> probe" where
  "instanceof_Error (JSError nm msg) = IsError"
| "instanceof_Error (JSCrafted p m) = p"
| "instanceof_Error v = NotError"

text \<open>
  \<^verbatim>\<open>err.message\<close>: the data property of an ordinary \<^verbatim>\<open>Error\<close>, the own property of a plain
  object, a \<^verbatim>\<open>TypeError\<close> on \<^verbatim>\<open>undefined\<close> and \<^verbatim>\<open>null\<close>, \<^verbatim>\<open>undefined\<close> on the other
  primitives and on functions, and whatever the crafted object makes of it.
\<close>

fun get_message :: "js_value \<Rightarrow> completion" where
  "get_message (JSError nm msg) = Returns (JSString msg)"
| "get_message (JSCrafted p m) = m"
| "get_message (JSObject props) =
     (case map_of props ''message'' of Some v \<Rightarrow> Returns v | None \<Rightarrow> Returns JSUndefined)"
| "get_message JSUndefined =
     Throws (JSError ''TypeError''
       ''Cannot read properties of undefined (reading 'message')'')"
| "get_message JSNull =
     Throws (JSError ''TypeError'' ''Cannot read properties of null (reading 'message')'')"
| "get_message v = Returns JSUndefined"

fun string_value :: "js_value \<Rightarrow> string" where
  "string_value (JSString t) = t"
| "string_value v = []"

text \<open>
  The JavaScript engine and the \<^verbatim>\<open>ts-to-rls\<close> module are not part of the repository. They
  enter as a parameter: an engine maps the bindings (parameter name, name of the \<^verbatim>\<open>RLS\<close>
  export passed for it) and the function body to the completion of
  \<^verbatim>\<open>new Function(p1, ..., pn, body)(RLS.a1, ..., RLS.an)\<close>.
\<close>

type_synonym engine = "(string \<times> string) list \<Rightarrow> string \<Rightarrow> completion"

section \<open>The sandbox executor\<close>

text \<open>The parameter names given to the \<^verbatim>\<open>Function\<close> constructor, in order.\<close>

definition executeCode_params :: "string list" where
  "executeCode_params =
     [''createPolicy'', ''column'', ''auth'', ''session'', ''from'', ''currentUser'',
      ''policies'']"

text \<open>The members of \<^verbatim>\<open>RLS\<close> passed as arguments, in order.\<close>

definition executeCode_args :: "string list" where
  "executeCode_args =
     [''createPolicy'', ''column'', ''auth'', ''session'', ''from'', ''currentUser'',
      ''policies'']"

definition contract_message :: string where
  "contract_message = ''Code must return a string (use policy.toSQL())''"

definition fallback_message :: string where
  "fallback_message = ''An error occurred''"

text \<open>
  \<^verbatim>\<open>executeCode\<close>: \<^verbatim>\<open>setError('')\<close> comes first inside the \<^verbatim>\<open>try\<close>; the \<^verbatim>\<open>typeof\<close> test
  chooses between \<^verbatim>\<open>setOutput(result)\<close> and \<^verbatim>\<open>setError(...)\<close>; the \<^verbatim>\<open>catch\<close> block evaluates
  \<^verbatim>\<open>err instanceof Error ? err.message : 'An error occurred'\<close>, passes the result to
  \<^verbatim>\<open>setError\<close> and then clears the output. Nothing surrounds the \<^verbatim>\<open>catch\<close> block, so a
  throw while that expression is evaluated leaves the handler, after \<^verbatim>\<open>setError('')\<close> and
  before the two calls of the \<^verbatim>\<open>catch\<close> block.

  The handler ends in one of four ways: it returns, with the session after its setter
  calls; an exception leaves it, with the session after the setter calls made so far; it
  passes \<^verbatim>\<open>setError\<close> a value that is not a string, which the string-typed \<open>error\<close> field
  cannot hold (the session given is the state of the other fields); or it never returns.
\<close>

datatype outcome =
    Finished session
  | Escaped js_value session
  | ErrorNotString js_value session
  | Hung

definition executeCode_outcome :: "engine \<Rightarrow> session \<Rightarrow> outcome" where
  "executeCode_outcome run s =
     (let s1 = s\<lparr>error := []\<rparr> in
      case run (zip executeCode_params executeCode_args) (input s) of
        Returns result \<Rightarrow>
          if typeof result = ''string''
          then Finished (s1\<lparr>output := string_value result\<rparr>)
          else Finished (s1\<lparr>error := contract_message\<rparr>)
      | Throws err \<Rightarrow>
          (case instanceof_Error err of
             IsError \<Rightarrow>
               (case get_message err of
                  Returns m \<Rightarrow>
                    if typeof m = ''string''
                    then Finished (s1\<lparr>error := string_value m, output := []\<rparr>)
                    else ErrorNotString m (s1\<lparr>output := []\<rparr>)
                | Throws e \<Rightarrow> Escaped e s1
                | Diverges \<Rightarrow> Hung)
           | NotError \<Rightarrow> Finished (s1\<lparr>error := fallback_message, output := []\<rparr>)
           | ProbeThrows e \<Rightarrow> Escaped e s1
           | ProbeDiverges \<Rightarrow> Hung)
      | Diverges \<Rightarrow> Hung)"

text \<open>The session after \<^verbatim>\<open>executeCode\<close>, when the handler returns.\<close>

definition executeCode :: "engine \<Rightarrow> session \<Rightarrow> session option" where
  "executeCode run s =
     (case executeCode_outcome run s of Finished s' \<Rightarrow> Some s' | _ \<Rightarrow> None)"

text \<open>
  Concrete runs need concrete completions. The table lists, for a handful of snippets,
  the completion ECMAScript gives them under the bindings above; \<open>table_engine\<close> is an
  engine that agrees with the table. No statement below evaluates it on a source outside
  the table.
\<close>

definition snippet_table :: "(string \<times> completion) list" where
  "snippet_table =
     [(''return 'X';'', Returns (JSString ''X'')),
      (''return 42;'', Returns (JSNumber 42)),
      (''const x = 1;'', Returns JSUndefined),
      (''throw new Error('bad column');'', Throws (JSError ''Error'' ''bad column'')),
      (''throw new Error();'', Throws (JSError ''Error'' [])),
      (''throw 'bad';'', Throws (JSString ''bad'')),
      (''throw Object.defineProperty(new Error(), 'message', { get() { throw 1; } });'',
         Throws (JSCrafted IsError (Throws (JSNumber 1)))),
      (''while (true) {}'', Diverges)]"

definition table_engine :: engine where
  "table_engine bindings body =
     (case map_of snippet_table body of Some c \<Rightarrow> c | None \<Rightarrow> Diverges)"

section \<open>Editing, the example catalog and the copy action\<close>

text \<open>
  The editor's \<^verbatim>\<open>onChange\<close> handler is \<^verbatim>\<open>(value) => setInput(value || '')\<close>; the editor
  passes \<^verbatim>\<open>undefined\<close> (\<open>None\<close>) or the new text.
\<close>

definition onChange :: "string option \<Rightarrow> session \<Rightarrow> session" where
  "onChange v s =
     s\<lparr>input := (case v of None \<Rightarrow> [] | Some t \<Rightarrow> if t \<noteq> [] then t else [])\<rparr>"

definition loadExample :: "string \<Rightarrow> session \<Rightarrow> session" where
  "loadExample c s = s\<lparr>input := c, output := [], error := []\<rparr>"

record example =
  name :: string
  code :: string

text \<open>The catalog of src/components/RLSTester.tsx; each template literal is split at its line breaks.\<close>

definition EXAMPLE_CODE :: string where
  "EXAMPLE_CODE =
     ''const policy = createPolicy('user_documents')\<newline>'' @
     ''  .on('documents')\<newline>'' @
     ''  .read()\<newline>'' @
     ''  .when(column('user_id').isOwner());\<newline>'' @
     ''\<newline>'' @
     ''return policy.toSQL();''"

definition EXAMPLES :: "example list" where
  "EXAMPLES =
     [\<lparr>name = ''User Ownership'',
       code =
         ''const policy = createPolicy('user_documents')\<newline>'' @
         ''  .on('documents')\<newline>'' @
         ''  .read()\<newline>'' @
         ''  .when(column('user_id').isOwner());\<newline>'' @
         ''\<newline>'' @
         ''return policy.toSQL();''\<rparr>,
      \<lparr>name = ''Multi-Tenant'',
       code =
         ''const policy = createPolicy('tenant_isolation')\<newline>'' @
         ''  .on('tenant_data')\<newline>'' @
         ''  .all()\<newline>'' @
         ''  .requireAll()\<newline>'' @
         ''  .when(column('tenant_id').belongsToTenant());\<newline>'' @
         ''\<newline>'' @
         ''return policy.toSQL();''\<rparr>,
      \<lparr>name = ''Owner or Member'',
       code =
         ''const policy = createPolicy('project_access')\<newline>'' @
         ''  .on('projects')\<newline>'' @
         ''  .read()\<newline>'' @
         ''  .when(\<newline>'' @
         ''    column('user_id').isOwner()\<newline>'' @
         ''      .or(\<newline>'' @
         ''        column('id').in(\<newline>'' @
         ''          from('project_members')\<newline>'' @
         ''            .select('project_id')\<newline>'' @
         ''            .where(column('user_id').eq(auth.uid()))\<newline>'' @
         ''        )\<newline>'' @
         ''      )\<newline>'' @
         ''  );\<newline>'' @
         ''\<newline>'' @
         ''return policy.toSQL();''\<rparr>,
      \<lparr>name = ''Complex OR'',
       code =
         ''const policy = createPolicy('project_access')\<newline>'' @
         ''  .on('projects')\<newline>'' @
         ''  .read()\<newline>'' @
         ''  .when(\<newline>'' @
         ''    column('is_public').isPublic()\<newline>'' @
         ''      .or(column('user_id').isOwner())\<newline>'' @
         ''      .or(column('organization_id').eq(session.get('app.org_id', 'uuid')))\<newline>'' @
         ''  );\<newline>'' @
         ''\<newline>'' @
         ''return policy.toSQL();''\<rparr>,
      \<lparr>name = ''With Indexes'',
       code =
         ''const policy = createPolicy('user_documents')\<newline>'' @
         ''  .on('documents')\<newline>'' @
         ''  .read()\<newline>'' @
         ''  .when(column('user_id').isOwner());\<newline>'' @
         ''\<newline>'' @
         ''return policy.toSQL({ includeIndexes: true });''\<rparr>,
      \<lparr>name = ''INSERT Validation'',
       code =
         ''const policy = createPolicy('user_documents_insert')\<newline>'' @
         ''  .on('user_documents')\<newline>'' @
         ''  .write()\<newline>'' @
         ''  .allow(column('user_id').isOwner());\<newline>'' @
         ''\<newline>'' @
         ''return policy.toSQL();''\<rparr>,
      \<lparr>name = ''UPDATE with Check'',
       code =
         ''const policy = createPolicy('user_documents_update')\<newline>'' @
         ''  .on('user_documents')\<newline>'' @
         ''  .update()\<newline>'' @
         ''  .allow(column('user_id').isOwner());\<newline>'' @
         ''\<newline>'' @
         ''return policy.toSQL();''\<rparr>,
      \<lparr>name = ''Template'',
       code =
         ''const [policy] = policies.userOwned('documents', 'SELECT');\<newline>'' @
         ''\<newline>'' @
         ''return policy.toSQL();''\<rparr>,
      \<lparr>name = ''DELETE Policy'',
       code =
         ''const policy = createPolicy('user_documents_delete')\<newline>'' @
         ''  .on('documents')\<newline>'' @
         ''  .delete()\<newline>'' @
         ''  .when(column('user_id').isOwner());\<newline>'' @
         ''\<newline>'' @
         ''return policy.toSQL();''\<rparr>,
      \<lparr>name = ''Pattern Matching'',
       code =
         ''const policy = createPolicy('search_documents')\<newline>'' @
         ''  .on('documents')\<newline>'' @
         ''  .read()\<newline>'' @
         ''  .when(\<newline>'' @
         ''    column('title').ilike('%report%')\<newline>'' @
         ''      .or(column('category').like('Finance%'))\<newline>'' @
         ''  );\<newline>'' @
         ''\<newline>'' @
         ''return policy.toSQL();''\<rparr>,
      \<lparr>name = ''Null Checks'',
       code =
         ''const policy = createPolicy('active_documents')\<newline>'' @
         ''  .on('documents')\<newline>'' @
         ''  .read()\<newline>'' @
         ''  .when(\<newline>'' @
         ''    column('deleted_at').isNull()\<newline>'' @
         ''      .and(column('published_at').isNotNull())\<newline>'' @
         ''  );\<newline>'' @
         ''\<newline>'' @
         ''return policy.toSQL();''\<rparr>,
      \<lparr>name = ''Public Access Template'',
       code =
         ''const policy = policies.publicAccess('documents');\<newline>'' @
         ''\<newline>'' @
         ''return policy.toSQL();''\<rparr>,
      \<lparr>name = ''Role-Based Access'',
       code =
         ''const [policy] = policies.roleAccess('admin_data', 'admin', ['SELECT', 'UPDATE']);\<newline>'' @
         ''\<newline>'' @
         ''return policy.toSQL();''\<rparr>,
      \<lparr>name = ''Helper Methods'',
       code =
         ''const policy = createPolicy('document_access')\<newline>'' @
         ''  .on('documents')\<newline>'' @
         ''  .read()\<newline>'' @
         ''  .when(\<newline>'' @
         ''    column('user_id').isOwner()\<newline>'' @
         ''      .or(column('is_public').isPublic())\<newline>'' @
         ''  );\<newline>'' @
         ''\<newline>'' @
         ''return policy.toSQL();''\<rparr>]"

text \<open>The state of a freshly mounted component (the four \<^verbatim>\<open>useState\<close> initial values).\<close>

definition initial_session :: session where
  "initial_session = \<lparr>input = EXAMPLE_CODE, output = [], error = [], copied = False\<rparr>"

text \<open>
  \<^verbatim>\<open>copyToClipboard\<close> reaches outside the React state: it calls
  \<^verbatim>\<open>navigator.clipboard.writeText\<close> and registers a timer. The browser record keeps the
  session together with the arguments of the clipboard calls made so far and the pending
  timers (milliseconds left until the timer fires, and its callback), both oldest first.
  \<^verbatim>\<open>setTimeout(f, 2000)\<close> adds a timer with 2000 milliseconds left. The only callback the
  component ever registers is \<^verbatim>\<open>() => setCopied(false)\<close>.
\<close>

datatype callback = SetCopied bool

fun run_callback :: "callback \<Rightarrow> session \<Rightarrow> session" where
  "run_callback (SetCopied b) s = s\<lparr>copied := b\<rparr>"

record browser =
  state :: session
  clipboard_calls :: "string list"
  timeouts :: "(nat \<times> callback) list"

datatype promise = Fulfilled | Rejected

text \<open>
  The clipboard may refuse a write (the promise of \<^verbatim>\<open>writeText\<close> rejects); the predicate
  \<open>granted\<close> says for which texts it resolves. After a rejected \<^verbatim>\<open>await\<close> the rest of the
  body is skipped and the promise of \<^verbatim>\<open>copyToClipboard\<close> rejects. The handler is modelled
  as one step: nothing else runs between the \<^verbatim>\<open>await\<close> and the two calls after it.
\<close>

definition copyToClipboard :: "(string \<Rightarrow> bool) \<Rightarrow> browser \<Rightarrow> browser \<times> promise" where
  "copyToClipboard granted w =
     (if output (state w) \<noteq> [] then
        (let w1 = w\<lparr>clipboard_calls := clipboard_calls w @ [output (state w)]\<rparr> in
         if granted (output (state w)) then
           (w1\<lparr>state := (state w1)\<lparr>copied := True\<rparr>,
               timeouts := timeouts w1 @ [(2000, SetCopied False)]\<rparr>,
            Fulfilled)
         else (w1, Rejected))
      else (w, Fulfilled))"

text \<open>
  The passing of \<open>ms\<close> milliseconds without user input, with timers that fire exactly when
  their delay has elapsed: the timers due within the interval fire in the order of their
  due times (registration order among equal ones), and the others have that much less
  time left. Nothing in the component ever calls \<^verbatim>\<open>clearTimeout\<close>.
\<close>

definition elapse :: "nat \<Rightarrow> browser \<Rightarrow> browser" where
  "elapse ms w =
     (let fired = sort_key fst (filter (\<lambda>t. fst t \<le> ms) (timeouts w)) in
      w\<lparr>state := fold run_callback (map snd fired) (state w),
        timeouts := map (\<lambda>t. (fst t - ms, snd t)) (filter (\<lambda>t. ms < fst t) (timeouts w))\<rparr>)"

text \<open>
  A page that shows the output \<^verbatim>\<open>X\<close>, and the same page after two clicks on the copy
  button, the second 1500 milliseconds after the first, with a clipboard that accepts
  both writes.
\<close>

definition copy_page :: browser where
  "copy_page =
     \<lparr>state = \<lparr>input = ''return 'X';'', output = ''X'', error = [], copied = False\<rparr>,
      clipboard_calls = [], timeouts = []\<rparr>"

definition second_copy :: browser where
  "second_copy =
     fst (copyToClipboard (\<lambda>t. True)
            (elapse 1500 (fst (copyToClipboard (\<lambda>t. True) copy_page))))"

section \<open>The editor augmentation\<close>

text \<open>
  \<^verbatim>\<open>handleEditorWillMount\<close> registers a document \<^verbatim>\<open>file:///globals.d.ts\<close> whose
  \<^verbatim>\<open>declare global\<close> block has one line \<^verbatim>\<open>const n: typeof RLS.m;\<close> per entry of the list
  below (name \<open>n\<close>, member \<open>m\<close>), in this order.
\<close>

definition globalDeclarations :: "(string \<times> string) list" where
  "globalDeclarations =
     [(''createPolicy'', ''createPolicy''),
      (''column'', ''column''),
      (''auth'', ''auth''),
      (''session'', ''session''),
      (''currentUser'', ''currentUser''),
      (''from'', ''from''),
      (''hasRole'', ''hasRole''),
      (''alwaysTrue'', ''alwaysTrue''),
      (''call'', ''call''),
      (''policies'', ''policies'')]"

definition declaration_line :: "string \<times> string \<Rightarrow> string" where
  "declaration_line d =
     ''        const '' @ fst d @ '': typeof RLS.'' @ snd d @ '';\<newline>''"

definition globalDeclarations_text :: string where
  "globalDeclarations_text =
     ''\<newline>'' @
     ''      import type * as RLS from 'ts-to-rls';\<newline>'' @
     ''\<newline>'' @
     ''      declare global {\<newline>'' @
     concat (map declaration_line globalDeclarations) @
     ''      }\<newline>'' @
     ''    ''"

definition declared_names :: "string list" where
  "declared_names = map fst globalDeclarations"

section \<open>The build script scripts/copy-types.js\<close>

text \<open>
  Files hold bytes; the strings the script computes with are JavaScript strings, sequences
  of UTF-16 code units. \<^verbatim>\<open>readFileSync(path, 'utf-8')\<close> decodes the bytes of a file into such
  a string and \<^verbatim>\<open>writeFileSync\<close> encodes a string into bytes. Both conversions belong to
  Node and enter as a parameter. The string literals of the script are ASCII; \<open>lit\<close>
  gives their code units.
\<close>

type_synonym js_string = "nat list"

record codec =
  decode :: "string \<Rightarrow> js_string"
  encode :: "js_string \<Rightarrow> string"

definition lit :: "string \<Rightarrow> js_string" where
  "lit s = map of_char s"

text \<open>
  The script works on the file system through \<^verbatim>\<open>existsSync\<close>, \<^verbatim>\<open>copyFileSync\<close>,
  \<^verbatim>\<open>readFileSync\<close> and \<^verbatim>\<open>writeFileSync\<close>. A disk holds the regular files by path, and for
  the paths at which the operating system refuses a read or a write (permissions, a
  missing directory, a full device) the message of the \<^verbatim>\<open>Error\<close> that Node throws there.
  The last three calls throw when they fail; \<^verbatim>\<open>existsSync\<close> never throws. A missing file
  is reported in Node's words: code and description, system call, quoted path, and for
  \<^verbatim>\<open>copyfile\<close> the destination after an arrow.
\<close>

record disk =
  contents :: "string \<rightharpoonup> string"
  read_fault :: "string \<rightharpoonup> string"
  write_fault :: "string \<rightharpoonup> string"

datatype node_error = NodeError string

fun error_message :: "node_error \<Rightarrow> string" where
  "error_message (NodeError msg) = msg"

definition quoted :: "string \<Rightarrow> string" where
  "quoted p = [CHR 0x27] @ p @ [CHR 0x27]"

definition enoent_open :: "string \<Rightarrow> node_error" where
  "enoent_open p = NodeError (''ENOENT: no such file or directory, open '' @ quoted p)"

definition enoent_copyfile :: "string \<Rightarrow> string \<Rightarrow> node_error" where
  "enoent_copyfile src dst =
     NodeError (''ENOENT: no such file or directory, copyfile '' @ quoted src @ '' -> '' @
                quoted dst)"

definition existsSync :: "disk \<Rightarrow> string \<Rightarrow> bool" where
  "existsSync d p \<longleftrightarrow> contents d p \<noteq> None"

definition readFileSync :: "codec \<Rightarrow> disk \<Rightarrow> string \<Rightarrow> node_error + js_string" where
  "readFileSync c d p =
     (case contents d p of
        None \<Rightarrow> Inl (enoent_open p)
      | Some bytes \<Rightarrow>
          (case read_fault d p of
             Some msg \<Rightarrow> Inl (NodeError msg)
           | None \<Rightarrow> Inr (decode c bytes)))"

definition writeFileSync :: "codec \<Rightarrow> disk \<Rightarrow> string \<Rightarrow> js_string \<Rightarrow> node_error + disk" where
  "writeFileSync c d p data =
     (case write_fault d p of
        Some msg \<Rightarrow> Inl (NodeError msg)
      | None \<Rightarrow> Inr (d\<lparr>contents := (contents d)(p \<mapsto> encode c data)\<rparr>))"

definition copyFileSync :: "disk \<Rightarrow> string \<Rightarrow> string \<Rightarrow> node_error + disk" where
  "copyFileSync d src dst =
     (case contents d src of
        None \<Rightarrow> Inl (enoent_copyfile src dst)
      | Some bytes \<Rightarrow>
          (case read_fault d src of
             Some msg \<Rightarrow> Inl (NodeError msg)
           | None \<Rightarrow>
               (case write_fault d dst of
                  Some msg \<Rightarrow> Inl (NodeError msg)
                | None \<Rightarrow> Inr (d\<lparr>contents := (contents d)(dst \<mapsto> bytes)\<rparr>))))"

text \<open>
  \<^verbatim>\<open>path.join\<close> on a normalised directory (no trailing separator; \<^verbatim>\<open>projectRoot\<close> is
  one) and a relative path without dot segments.
\<close>

definition join :: "string \<Rightarrow> string \<Rightarrow> string" where
  "join dir p = dir @ ''/'' @ p"

definition sourcePath :: "string \<Rightarrow> string" where
  "sourcePath projectRoot = join projectRoot ''node_modules/rls-dsl/dist/bundle.d.ts''"

definition targetPath :: "string \<Rightarrow> string" where
  "targetPath projectRoot = join projectRoot ''src/rls-dsl-types.d.ts''"

definition indexPath :: "string \<Rightarrow> string" where
  "indexPath projectRoot = join projectRoot ''node_modules/rls-dsl/dist/index.d.ts''"

definition distDir :: "string \<Rightarrow> string" where
  "distDir projectRoot = join projectRoot ''node_modules/rls-dsl/dist''"

definition files :: "string list" where
  "files =
     [''types.d.ts'', ''column.d.ts'', ''context.d.ts'', ''sql.d.ts'',
      ''subquery-builder.d.ts'', ''policy-builder.d.ts'', ''validation.d.ts'',
      ''composition.d.ts'', ''index.d.ts'']"

text \<open>
  The two \<^verbatim>\<open>content.replace(/^...$/gm, '')\<close> calls. With the \<^verbatim>\<open>m\<close> flag \<^verbatim>\<open>^\<close> and \<^verbatim>\<open>$\<close> match
  at the line terminators, and \<^verbatim>\<open>.\<close> matches one code unit that is no line terminator, so
  a match is always one whole line, and the replacement empties that line and keeps its
  terminator. The line terminators of ECMAScript are line feed, carriage return, U+2028
  and U+2029.
\<close>

definition is_line_terminator :: "nat \<Rightarrow> bool" where
  "is_line_terminator u \<longleftrightarrow> u = 0x0A \<or> u = 0x0D \<or> u = 0x2028 \<or> u = 0x2029"

fun replace_lines :: "(js_string \<Rightarrow> bool) \<Rightarrow> js_string \<Rightarrow> js_string \<Rightarrow> js_string" where
  "replace_lines matches line [] = (if matches line then [] else line)"
| "replace_lines matches line (u # us) =
     (if is_line_terminator u
      then (if matches line then [] else line) @ u # replace_lines matches [] us
      else replace_lines matches (line @ [u]) us)"

text \<open>\<^verbatim>\<open>import .+ from .+;\<close> against a whole line.\<close>

definition matches_import :: "js_string \<Rightarrow> bool" where
  "matches_import line \<longleftrightarrow>
     take 7 line = lit ''import '' \<and>
     (let r = drop 7 line in
      r \<noteq> [] \<and> last r = of_char CHR '';'' \<and>
      list_ex (\<lambda>i. take 6 (drop i r) = lit '' from '' \<and> i + 8 \<le> length r) [1..<length r])"

text \<open>\<^verbatim>\<open>export \* from .+;\<close> against a whole line.\<close>

definition matches_export_all :: "js_string \<Rightarrow> bool" where
  "matches_export_all line \<longleftrightarrow>
     take 14 line = lit ''export * from '' \<and> 16 \<le> length line \<and>
     last line = of_char CHR '';''"

definition inline_declarations :: "js_string \<Rightarrow> js_string" where
  "inline_declarations content =
     replace_lines matches_export_all [] (replace_lines matches_import [] content)"

text \<open>
  The \<^verbatim>\<open>for\<close> loop over \<^verbatim>\<open>files\<close>, with \<^verbatim>\<open>combined\<close> as the accumulator; a failing read
  leaves the loop with the thrown error.
\<close>

fun combine ::
  "codec \<Rightarrow> disk \<Rightarrow> string \<Rightarrow> string list \<Rightarrow> js_string \<Rightarrow> node_error + js_string" where
  "combine c d dir [] combined = Inr combined"
| "combine c d dir (file # rest) combined =
     (let filePath = join dir file in
      if existsSync d filePath then
        (case readFileSync c d filePath of
           Inl e \<Rightarrow> Inl e
         | Inr content \<Rightarrow>
             combine c d dir rest
               (combined @ inline_declarations content @ lit ''\<newline>\<newline>''))
      else combine c d dir rest combined)"

definition combined_header :: js_string where
  "combined_header = lit ''// Auto-generated type definitions for rls-dsl\<newline>\<newline>''"

definition fallback :: js_string where
  "fallback = lit ''// Fallback type definitions\<newline>export * from 'rls-dsl';\<newline>''"

text \<open>
  Console lines carry the stream they go to and are given as the bytes written. The check
  mark and the warning sign that open the messages are written as their UTF-8 bytes.
\<close>

datatype stream = Log | Warn | Error

definition check_mark :: string where
  "check_mark = [CHR 0xE2, CHR 0x9C, CHR 0x93]"

definition warning_sign :: string where
  "warning_sign = [CHR 0xE2, CHR 0x9A, CHR 0xA0]"

text \<open>
  The \<^verbatim>\<open>try\<close> block: the lines printed, and either the thrown error or the disk after the
  block. Only the last file-system call of each branch writes, so a throw leaves the disk
  as it was.
\<close>

definition try_block ::
  "codec \<Rightarrow> string \<Rightarrow> disk \<Rightarrow> (stream \<times> string) list \<times> (node_error + disk)" where
  "try_block c projectRoot d =
     (if existsSync d (sourcePath projectRoot) then
        (case copyFileSync d (sourcePath projectRoot) (targetPath projectRoot) of
           Inl e \<Rightarrow> ([], Inl e)
         | Inr d' \<Rightarrow> ([(Log, check_mark @ '' Copied rls-dsl type definitions'')], Inr d'))
      else
        (let warned =
           [(Warn, warning_sign @ '' bundle.d.ts not found, generating from index.d.ts'')]
         in
         if existsSync d (indexPath projectRoot) then
           (case combine c d (distDir projectRoot) files combined_header of
              Inl e \<Rightarrow> (warned, Inl e)
            | Inr combined \<Rightarrow>
                (case writeFileSync c d (targetPath projectRoot) combined of
                   Inl e \<Rightarrow> (warned, Inl e)
                 | Inr d' \<Rightarrow>
                     (warned @
                        [(Log, check_mark @
                           '' Generated rls-dsl type definitions from source files'')],
                      Inr d')))
         else
           (case writeFileSync c d (targetPath projectRoot) fallback of
              Inl e \<Rightarrow> (warned, Inl e)
            | Inr d' \<Rightarrow>
                (warned @ [(Log, check_mark @ '' Created fallback type definitions'')],
                 Inr d'))))"

text \<open>
  A script that runs to its end leaves Node with exit status 0; the \<^verbatim>\<open>catch\<close> block ends
  the process itself, with \<^verbatim>\<open>process.exit(0)\<close>, after printing the message of the error.
\<close>

datatype ending = EndOfScript | ProcessExit nat

fun exit_status :: "ending \<Rightarrow> nat" where
  "exit_status EndOfScript = 0"
| "exit_status (ProcessExit n) = n"

record script_run =
  disk_after :: disk
  console :: "(stream \<times> string) list"
  ending :: ending

definition copy_types :: "codec \<Rightarrow> string \<Rightarrow> disk \<Rightarrow> script_run" where
  "copy_types c projectRoot d =
     (case try_block c projectRoot d of
        (printed, Inr d') \<Rightarrow>
          \<lparr>disk_after = d', console = printed, ending = EndOfScript\<rparr>
      | (printed, Inl e) \<Rightarrow>
          \<lparr>disk_after = d,
           console = printed @ [(Error, ''Error copying types: '' @ error_message e)],
           ending = ProcessExit 0\<rparr>)"

text \<open>
  Concrete runs use \<^verbatim>\<open>projectRoot\<close> \<^verbatim>\<open>/app\<close> and files that are pure ASCII, on which UTF-8
  decoding and encoding keep every code value; \<open>ascii_codec\<close> is a codec that agrees with
  Node on such files and strings. No statement below evaluates it on anything else. The
  disks: a package directory with \<^verbatim>\<open>index.d.ts\<close> and \<^verbatim>\<open>types.d.ts\<close> and no bundle; a package
  directory with \<^verbatim>\<open>types.d.ts\<close> only; a disk without the package; and the latter with the
  target file write-protected.
\<close>

definition ascii_codec :: codec where
  "ascii_codec = \<lparr>decode = map of_char, encode = map char_of\<rparr>"

definition unbundled_disk :: disk where
  "unbundled_disk =
     \<lparr>contents =
        [''/app/node_modules/rls-dsl/dist/index.d.ts'' \<mapsto>
           ''export * from './types';\<newline>export { a } from './a';\<newline>'',
         ''/app/node_modules/rls-dsl/dist/types.d.ts'' \<mapsto>
           ''import { A } from './a';\<newline>export type T = A;\<newline>''],
      read_fault = Map.empty, write_fault = Map.empty\<rparr>"

definition indexless_disk :: disk where
  "indexless_disk =
     \<lparr>contents =
        [''/app/node_modules/rls-dsl/dist/types.d.ts'' \<mapsto>
           ''import { A } from './a';\<newline>export type T = A;\<newline>''],
      read_fault = Map.empty, write_fault = Map.empty\<rparr>"

definition bare_disk :: disk where
  "bare_disk = \<lparr>contents = Map.empty, read_fault = Map.empty, write_fault = Map.empty\<rparr>"

definition locked_disk :: disk where
  "locked_disk =
     \<lparr>contents = Map.empty, read_fault = Map.empty,
      write_fault =
        [''/app/src/rls-dsl-types.d.ts'' \<mapsto>
           ''EACCES: permission denied, open '' @ quoted ''/app/src/rls-dsl-types.d.ts'']\<rparr>"

section \<open>Results about the sandbox executor\<close>


text \<open>A snippet that never returns keeps the handler from returning.\<close>

lemma executeCode_diverges:
  assumes "run (zip executeCode_params executeCode_args) (input s) = Diverges"
  shows "executeCode run s = None"
  using assms by (simp add: executeCode_def executeCode_outcome_def)

text \<open>A snippet that returns a value always lets the handler return.\<close>

lemma executeCode_returns:
  assumes "run (zip executeCode_params executeCode_args) (input s) = Returns v"
  shows "\<exists>s'. executeCode run s = Some s'"
  using assms by (simp add: executeCode_def executeCode_outcome_def Let_def)





text \<open>What the \<^verbatim>\<open>catch\<close> block does on ordinary thrown values.\<close>

lemma executeCode_throws_Error:
  assumes "run (zip executeCode_params executeCode_args) (input s) = Throws (JSError nm msg)"
  shows "executeCode run s = Some (s\<lparr>error := msg, output := []\<rparr>)"
  using assms by (simp add: executeCode_def executeCode_outcome_def)

lemma executeCode_throws_not_Error:
  assumes "run (zip executeCode_params executeCode_args) (input s) = Throws e"
    and "instanceof_Error e = NotError"
  shows "executeCode run s = Some (s\<lparr>error := ''An error occurred'', output := []\<rparr>)"
  using assms by (simp add: executeCode_def executeCode_outcome_def fallback_message_def)

text \<open>
  Claim C3 does not hold of the code. \<^verbatim>\<open>throw new Error()\<close> throws an \<^verbatim>\<open>Error\<close> whose
  message is the empty string. The \<^verbatim>\<open>catch\<close> block takes the fallback text only for values
  that are not \<^verbatim>\<open>Error\<close> instances, so it stores the empty message: the session ends with
  an empty error and an empty output, and the panel shows the placeholder, not a failure.
  Moreover the \<^verbatim>\<open>catch\<close> block reads \<^verbatim>\<open>err.message\<close> unguarded: when the thrown \<^verbatim>\<open>Error\<close>
  has a \<^verbatim>\<open>message\<close> getter that throws, that second throw leaves \<^verbatim>\<open>executeCode\<close>, with the
  previous output still in place.
\<close>

theorem executeCode_throw_empty_message:
  "executeCode table_engine
     \<lparr>input = ''throw new Error();'', output = ''X'', error = [], copied = False\<rparr>
   = Some \<lparr>input = ''throw new Error();'', output = [], error = [], copied = False\<rparr>
   \<and> result_panel
        \<lparr>input = ''throw new Error();'', output = [], error = [], copied = False\<rparr>
     = Placeholder
   \<and> executeCode_outcome table_engine
        \<lparr>input =
           ''throw Object.defineProperty(new Error(), 'message', { get() { throw 1; } });'',
         output = ''X'', error = ''stale'', copied = False\<rparr>
     = Escaped (JSNumber 1)
        \<lparr>input =
           ''throw Object.defineProperty(new Error(), 'message', { get() { throw 1; } });'',
         output = ''X'', error = [], copied = False\<rparr>"
  by (simp add: executeCode_def executeCode_outcome_def table_engine_def snippet_table_def
      result_panel_def)

text \<open>
  Claim C4 does not hold of the code. In a fresh session, edit the source to
  \<^verbatim>\<open>return 'X';\<close> and run it, then edit it to \<^verbatim>\<open>return 42;\<close> and run again: the
  second run reports the contract violation and keeps the output \<^verbatim>\<open>X\<close> of the first run beside it. The \<^verbatim>\<open>else\<close> branch never calls
  \<^verbatim>\<open>setOutput\<close>, whereas the \<^verbatim>\<open>catch\<close> block does. The panel shows the error, and the copy
  button for the stale text stays on screen.
\<close>

theorem executeCode_keeps_stale_output:
  "Option.bind (executeCode table_engine (onChange (Some ''return 'X';'') initial_session))
     (\<lambda>s. executeCode table_engine (onChange (Some ''return 42;'') s))
   = Some \<lparr>input = ''return 42;'', output = ''X'',
            error = ''Code must return a string (use policy.toSQL())'', copied = False\<rparr>
   \<and> copy_button_shown
        \<lparr>input = ''return 42;'', output = ''X'',
         error = ''Code must return a string (use policy.toSQL())'', copied = False\<rparr>"
  by (simp add: executeCode_def executeCode_outcome_def table_engine_def snippet_table_def
      initial_session_def onChange_def contract_message_def copy_button_shown_def)

text \<open>
  Claim C5 as stated fails for edits: an \<^verbatim>\<open>onChange\<close> after a failed run leaves the error
  message where it was.
\<close>

theorem onChange_keeps_error:
  "error (onChange (Some ''return 'X';'')
            \<lparr>input = ''return 42;'', output = [],
             error = ''Code must return a string (use policy.toSQL())'', copied = False\<rparr>)
     = ''Code must return a string (use policy.toSQL())''
   \<and> result_panel (onChange (Some ''return 'X';'')
            \<lparr>input = ''return 42;'', output = [],
             error = ''Code must return a string (use policy.toSQL())'', copied = False\<rparr>)
     = ErrorPanel ''Code must return a string (use policy.toSQL())''"
  by (simp add: onChange_def result_panel_def)

text \<open>
  Claim C5, amended. Loading an example clears both the output and the error, so the panel
  is the placeholder again. An edit replaces the program source only (by the empty string
  when the editor passes \<^verbatim>\<open>undefined\<close>) and leaves output, error and the copied flag as
  they were.
\<close>

theorem loadExample_clears_onChange_keeps:
  "output (loadExample c s) = [] \<and> error (loadExample c s) = [] \<and>
   result_panel (loadExample c s) = Placeholder \<and>
   onChange v s = s\<lparr>input := (case v of None \<Rightarrow> [] | Some t \<Rightarrow> t)\<rparr>"
  by (simp add: loadExample_def result_panel_def onChange_def split: option.split)

text \<open>
  Claim C6 does not hold of the code. The declarations document names ten constants, the
  \<^verbatim>\<open>Function\<close> constructor in \<^verbatim>\<open>executeCode\<close> receives seven parameter names: \<^verbatim>\<open>hasRole\<close>,
  \<^verbatim>\<open>alwaysTrue\<close> and \<^verbatim>\<open>call\<close> are declared for the editor and bound by nothing when the
  snippet runs.
\<close>

theorem declared_but_unbound:
  "''hasRole'' \<in> set declared_names \<and> ''hasRole'' \<notin> set executeCode_params \<and>
   ''alwaysTrue'' \<in> set declared_names \<and> ''alwaysTrue'' \<notin> set executeCode_params \<and>
   ''call'' \<in> set declared_names \<and> ''call'' \<notin> set executeCode_params \<and>
   set declared_names \<noteq> set executeCode_params"
proof -
  have a: "''hasRole'' \<in> set declared_names" "''alwaysTrue'' \<in> set declared_names"
    "''call'' \<in> set declared_names"
    by (simp_all add: declared_names_def globalDeclarations_def)
  have b: "''hasRole'' \<notin> set executeCode_params" "''alwaysTrue'' \<notin> set executeCode_params"
    "''call'' \<notin> set executeCode_params"
    by (simp_all add: executeCode_params_def)
  from a(1) b(1) have "set declared_names \<noteq> set executeCode_params"
    by blast
  with a b show ?thesis
    by blast
qed

text \<open>
  Claim C7. Loading any example of the catalog makes the program source exactly that
  example's code and leaves an empty output and an empty error: the panel shows neither a
  result nor an error.
\<close>

theorem loadExample_catalog:
  "\<forall>e \<in> set EXAMPLES.
     input (loadExample (code e) s) = code e \<and>
     output (loadExample (code e) s) = [] \<and>
     error (loadExample (code e) s) = [] \<and>
     result_panel (loadExample (code e) s) = Placeholder"
  by (simp add: loadExample_def result_panel_def)

theorem loadExample_catalog_witness:
  "\<lparr>name = ''Public Access Template'',
     code = ''const policy = policies.publicAccess('documents');\<newline>'' @
            ''\<newline>'' @
            ''return policy.toSQL();''\<rparr> \<in> set EXAMPLES \<and>
   loadExample (''const policy = policies.publicAccess('documents');\<newline>'' @
                ''\<newline>'' @
                ''return policy.toSQL();'')
     \<lparr>input = ''return 42;'', output = ''X'', error = ''stale'', copied = True\<rparr>
   = \<lparr>input = ''const policy = policies.publicAccess('documents');\<newline>'' @
               ''\<newline>'' @
               ''return policy.toSQL();'',
      output = [], error = [], copied = True\<rparr>"
proof -
  let ?e = "\<lparr>name = ''Public Access Template'',
              code = ''const policy = policies.publicAccess('documents');\<newline>'' @
                     ''\<newline>'' @
                     ''return policy.toSQL();''\<rparr>"
  let ?s = "\<lparr>input = ''return 42;'', output = ''X'', error = ''stale'', copied = True\<rparr>"
  have mem: "?e \<in> set EXAMPLES"
    by (simp add: EXAMPLES_def)
  have "input (loadExample (code ?e) ?s) = code ?e \<and>
        output (loadExample (code ?e) ?s) = [] \<and>
        error (loadExample (code ?e) ?s) = [] \<and>
        result_panel (loadExample (code ?e) ?s) = Placeholder"
    using loadExample_catalog [of ?s] mem by blast
  moreover have "copied (loadExample (code ?e) ?s) = True"
    by (simp add: loadExample_def)
  ultimately have "loadExample (code ?e) ?s
                     = \<lparr>input = code ?e, output = [], error = [], copied = True\<rparr>"
    by (cases "loadExample (code ?e) ?s") simp
  with mem show ?thesis
    by simp
qed

text \<open>
  Claim C10. With an empty output the copy action does nothing: it makes no clipboard
  call, registers no timer and leaves the session, the copied flag included, as it was.
\<close>

theorem copyToClipboard_empty:
  assumes "output (state w) = []"
  shows "copyToClipboard granted w = (w, Fulfilled)"
  using assms by (simp add: copyToClipboard_def)

theorem copyToClipboard_empty_witness:
  "copyToClipboard (\<lambda>t. True)
     \<lparr>state = \<lparr>input = ''return 42;'', output = [], error = ''stale'', copied = False\<rparr>,
      clipboard_calls = [], timeouts = []\<rparr>
   = (\<lparr>state = \<lparr>input = ''return 42;'', output = [], error = ''stale'', copied = False\<rparr>,
       clipboard_calls = [], timeouts = []\<rparr>, Fulfilled)"
proof -
  let ?w = "\<lparr>state = \<lparr>input = ''return 42;'', output = [], error = ''stale'', copied = False\<rparr>,
             clipboard_calls = [], timeouts = []\<rparr>"
  have empty: "output (state ?w) = []"
    by simp
  show ?thesis
    using copyToClipboard_empty [where w = ?w and granted = "\<lambda>t. True", OF empty] by simp
qed

section \<open>Results about the copy action on a non-empty output\<close>

text \<open>
  With a non-empty output and a clipboard that accepts the write, the handler makes one
  clipboard call with the output, sets the copied flag and adds one timer with 2000
  milliseconds left whose callback clears the flag. A refused write leaves flag and
  timers alone.
\<close>

lemma copyToClipboard_granted:
  assumes "output (state w) \<noteq> []" and "granted (output (state w))"
  shows "copyToClipboard granted w =
           (w\<lparr>clipboard_calls := clipboard_calls w @ [output (state w)],
              state := (state w)\<lparr>copied := True\<rparr>,
              timeouts := timeouts w @ [(2000, SetCopied False)]\<rparr>, Fulfilled)"
  using assms by (simp add: copyToClipboard_def)

lemma copyToClipboard_refused:
  assumes "output (state w) \<noteq> []" and "\<not> granted (output (state w))"
  shows "copyToClipboard granted w =
           (w\<lparr>clipboard_calls := clipboard_calls w @ [output (state w)]\<rparr>, Rejected)"
  using assms by (simp add: copyToClipboard_def)

lemma run_callback_clears: "copied (run_callback (SetCopied False) s) = False"
  by simp

text \<open>
  When no timer is pending at the time of the copy, the flag stays set for exactly 2000
  milliseconds.
\<close>

lemma copyToClipboard_alone_reverts_at_2000:
  assumes "output (state w) \<noteq> []" and "granted (output (state w))" and "timeouts w = []"
  shows "copied (state (elapse ms (fst (copyToClipboard granted w)))) \<longleftrightarrow> ms < 2000"
  using assms by (simp add: copyToClipboard_def elapse_def)

text \<open>
  Claim C8 does not hold of the code. Copy, wait 1500 milliseconds and copy again: the
  second copy completes and sets the flag, but the timer of the first copy is still
  pending with 500 milliseconds left, since the handler starts a new timer without
  cancelling the old one. The flag stays set for 499 milliseconds and is cleared after
  500, not after 2000.
\<close>

theorem second_copy_reverts_after_500:
  "second_copy =
     \<lparr>state = \<lparr>input = ''return 'X';'', output = ''X'', error = [], copied = True\<rparr>,
      clipboard_calls = [''X'', ''X''],
      timeouts = [(500, SetCopied False), (2000, SetCopied False)]\<rparr> \<and>
   copied (state (elapse 499 second_copy)) = True \<and>
   copied (state (elapse 500 second_copy)) = False"
proof -
  have eq: "second_copy =
     \<lparr>state = \<lparr>input = ''return 'X';'', output = ''X'', error = [], copied = True\<rparr>,
      clipboard_calls = [''X'', ''X''],
      timeouts = [(500, SetCopied False), (2000, SetCopied False)]\<rparr>"
    by (simp add: second_copy_def copy_page_def copyToClipboard_def elapse_def)
  have "copied (state (elapse 499 second_copy)) = True"
    by (simp add: eq elapse_def)
  moreover have "copied (state (elapse 500 second_copy)) = False"
    by (simp add: eq elapse_def)
  ultimately show ?thesis
    using eq by simp
qed

section \<open>Results about the build script\<close>

text \<open>The two line patterns, as decompositions of the line.\<close>

lemma matches_export_all_iff:
  "matches_export_all line \<longleftrightarrow>
     (\<exists>b. b \<noteq> [] \<and> line = lit ''export * from '' @ b @ lit '';'')"
proof
  assume m: "matches_export_all line"
  then have p: "take 14 line = lit ''export * from ''" and len: "16 \<le> length line"
    and l: "last line = of_char CHR '';''"
    by (simp_all add: matches_export_all_def)
  define t where "t = drop 14 line"
  have line: "line = lit ''export * from '' @ t"
    using p append_take_drop_id [of 14 line] by (simp add: t_def)
  have tl: "2 \<le> length t"
    using len by (simp add: t_def)
  then have tne: "t \<noteq> []"
    by auto
  have "last t = of_char CHR '';''"
    using l tne line by simp
  then have "t = butlast t @ lit '';''"
    using tne append_butlast_last_id [of t] by (simp add: lit_def)
  moreover have "butlast t \<noteq> []"
    using tl by (cases t rule: rev_cases) auto
  ultimately show "\<exists>b. b \<noteq> [] \<and> line = lit ''export * from '' @ b @ lit '';''"
    using line by metis
next
  assume "\<exists>b. b \<noteq> [] \<and> line = lit ''export * from '' @ b @ lit '';''"
  then obtain b where "b \<noteq> []" "line = lit ''export * from '' @ b @ lit '';''"
    by blast
  then show "matches_export_all line"
    by (cases b) (simp_all add: matches_export_all_def lit_def)
qed

lemma matches_import_iff:
  "matches_import line \<longleftrightarrow>
     (\<exists>a b. a \<noteq> [] \<and> b \<noteq> [] \<and>
            line = lit ''import '' @ a @ lit '' from '' @ b @ lit '';'')"
proof
  assume m: "matches_import line"
  define r where "r = drop 7 line"
  from m have p: "take 7 line = lit ''import ''" and rne: "r \<noteq> []"
    and l: "last r = of_char CHR '';''"
    and ex: "list_ex (\<lambda>i. take 6 (drop i r) = lit '' from '' \<and> i + 8 \<le> length r)
               [1..<length r]"
    by (simp_all add: matches_import_def r_def Let_def)
  have line: "line = lit ''import '' @ r"
    using p append_take_drop_id [of 7 line] by (simp add: r_def)
  from ex obtain i where i: "1 \<le> i" "take 6 (drop i r) = lit '' from ''" "i + 8 \<le> length r"
    by (auto simp: list_ex_iff)
  define a where "a = take i r"
  define t where "t = drop 6 (drop i r)"
  have r: "r = a @ lit '' from '' @ t"
    using i(2) append_take_drop_id [of i r] append_take_drop_id [of 6 "drop i r"]
    by (simp add: a_def t_def)
  have ane: "a \<noteq> []"
    using i(1,3) by (auto simp: a_def)
  have tl: "2 \<le> length t"
    using i(3) by (simp add: t_def)
  then have tne: "t \<noteq> []"
    by auto
  have "last t = of_char CHR '';''"
    using l r tne by simp
  then have t: "t = butlast t @ lit '';''"
    using tne append_butlast_last_id [of t] by (simp add: lit_def)
  have bne: "butlast t \<noteq> []"
    using tl by (cases t rule: rev_cases) auto
  have "line = lit ''import '' @ a @ lit '' from '' @ butlast t @ lit '';''"
    using line r t by simp
  with ane bne show "\<exists>a b. a \<noteq> [] \<and> b \<noteq> [] \<and>
                       line = lit ''import '' @ a @ lit '' from '' @ b @ lit '';''"
    by blast
next
  assume "\<exists>a b. a \<noteq> [] \<and> b \<noteq> [] \<and>
                line = lit ''import '' @ a @ lit '' from '' @ b @ lit '';''"
  then obtain a b where ab: "a \<noteq> []" "b \<noteq> []"
    and line: "line = lit ''import '' @ a @ lit '' from '' @ b @ lit '';''"
    by blast
  let ?r = "a @ lit '' from '' @ b @ lit '';''"
  have d: "drop 7 line = ?r" and p: "take 7 line = lit ''import ''"
    using line by (simp_all add: lit_def)
  have la: "1 \<le> length a" and lb: "1 \<le> length b"
    using ab by (simp_all add: Suc_le_eq)
  have "length a \<in> set [1..<length ?r]"
    using la by (simp add: lit_def)
  moreover have "take 6 (drop (length a) ?r) = lit '' from ''"
    by (simp add: lit_def)
  moreover have "length a + 8 \<le> length ?r"
    using lb by (simp add: lit_def)
  ultimately have "list_ex (\<lambda>i. take 6 (drop i ?r) = lit '' from '' \<and> i + 8 \<le> length ?r)
                     [1..<length ?r]"
    unfolding list_ex_iff by blast
  moreover have "?r \<noteq> []" and "last ?r = of_char CHR '';''"
    by (simp_all add: lit_def)
  ultimately show "matches_import line"
    using p d by (simp add: matches_import_def Let_def)
qed

text \<open>A line terminator inside a file is U+2028 as much as a line feed.\<close>

lemma inline_declarations_line_separator:
  "inline_declarations ([0x61, 0x2028] @ lit ''import a from b;'' @ [0x2029, 0x62])
     = [0x61, 0x2028, 0x2029, 0x62]"
  by (simp add: lit_def inline_declarations_def matches_import_def matches_export_all_def
      is_line_terminator_def)

text \<open>
  When no constituent file is unreadable the loop cannot throw, and it appends the
  processed content of every file that exists, in the order of \<^verbatim>\<open>files\<close>.
\<close>

lemma combine_readable:
  assumes "\<forall>f \<in> set fs. read_fault d (join dir f) = None"
  shows "combine c d dir fs acc =
           Inr (acc @ concat (map (\<lambda>f. inline_declarations
                                        (decode c (the (contents d (join dir f))))
                                      @ lit ''\<newline>\<newline>'')
                                (filter (\<lambda>f. existsSync d (join dir f)) fs)))"
  using assms
proof (induction fs arbitrary: acc)
  case Nil
  then show ?case by simp
next
  case (Cons f fs)
  then show ?case
    by (auto simp: existsSync_def readFileSync_def Let_def split: option.splits)
qed

lemma copy_types_exit_zero: "exit_status (ending (copy_types c projectRoot d)) = 0"
  by (simp add: copy_types_def split: prod.split sum.split)

lemma copy_types_catch:
  "ending (copy_types c projectRoot d) = ProcessExit 0
     \<longleftrightarrow> (\<exists>e. snd (try_block c projectRoot d) = Inl e)"
  by (auto simp add: copy_types_def split: prod.split sum.split)

lemma copy_types_copies:
  assumes "existsSync d (sourcePath projectRoot)"
    and "read_fault d (sourcePath projectRoot) = None"
    and "write_fault d (targetPath projectRoot) = None"
  shows "contents (disk_after (copy_types c projectRoot d)) (targetPath projectRoot)
           = contents d (sourcePath projectRoot)"
  using assms
  by (auto simp add: copy_types_def try_block_def copyFileSync_def existsSync_def)

lemma copy_types_regenerates:
  assumes "\<not> existsSync d (sourcePath projectRoot)"
    and "existsSync d (indexPath projectRoot)"
    and "\<forall>f \<in> set files. read_fault d (join (distDir projectRoot) f) = None"
    and "write_fault d (targetPath projectRoot) = None"
  shows "contents (disk_after (copy_types c projectRoot d)) (targetPath projectRoot)
           = Some (encode c
                    (combined_header @
                     concat (map (\<lambda>f. inline_declarations
                                         (decode c (the (contents d
                                                          (join (distDir projectRoot) f))))
                                       @ lit ''\<newline>\<newline>'')
                               (filter (\<lambda>f. existsSync d (join (distDir projectRoot) f))
                                  files))))"
  using assms(1,2,4) combine_readable [OF assms(3), of c combined_header]
  by (simp add: copy_types_def try_block_def writeFileSync_def)

lemma copy_types_stub:
  assumes "\<not> existsSync d (sourcePath projectRoot)"
    and "\<not> existsSync d (indexPath projectRoot)"
    and "write_fault d (targetPath projectRoot) = None"
  shows "contents (disk_after (copy_types c projectRoot d)) (targetPath projectRoot)
           = Some (encode c fallback)"
  using assms by (simp add: copy_types_def try_block_def writeFileSync_def)

lemma encode_ascii: "encode ascii_codec (lit s) = s"
  by (simp add: ascii_codec_def lit_def comp_def)

lemma decode_ascii: "decode ascii_codec s = lit s"
  by (simp add: ascii_codec_def lit_def)

text \<open>
  Claim C9 as stated fails: with the bundle and \<^verbatim>\<open>index.d.ts\<close> absent and the constituent
  file \<^verbatim>\<open>types.d.ts\<close> present, the script does not regenerate anything from
  \<^verbatim>\<open>types.d.ts\<close>; it writes the stub re-export.
\<close>

theorem copy_types_stub_beside_constituent:
  "''types.d.ts'' \<in> set files \<and>
   existsSync indexless_disk (join (distDir ''/app'') ''types.d.ts'') \<and>
   \<not> existsSync indexless_disk (sourcePath ''/app'') \<and>
   contents (disk_after (copy_types ascii_codec ''/app'' indexless_disk))
     ''/app/src/rls-dsl-types.d.ts''
     = Some ''// Fallback type definitions\<newline>export * from 'rls-dsl';\<newline>''"
proof -
  have "contents (disk_after (copy_types ascii_codec ''/app'' indexless_disk))
          (targetPath ''/app'') = Some (encode ascii_codec fallback)"
    by (rule copy_types_stub)
       (simp_all add: existsSync_def indexless_disk_def sourcePath_def indexPath_def
          join_def)
  then have "contents (disk_after (copy_types ascii_codec ''/app'' indexless_disk))
               ''/app/src/rls-dsl-types.d.ts''
               = Some ''// Fallback type definitions\<newline>export * from 'rls-dsl';\<newline>''"
    by (simp add: fallback_def encode_ascii targetPath_def join_def)
  moreover have "''types.d.ts'' \<in> set files"
    by (simp add: files_def)
  moreover have "existsSync indexless_disk (join (distDir ''/app'') ''types.d.ts'')"
    by (simp add: existsSync_def indexless_disk_def distDir_def join_def)
  moreover have "\<not> existsSync indexless_disk (sourcePath ''/app'')"
    by (simp add: existsSync_def indexless_disk_def sourcePath_def join_def)
  ultimately show ?thesis
    by blast
qed

text \<open>
  Claim C9, amended. The script always ends with exit status 0: either it runs to its
  end, or a file-system call throws, the \<^verbatim>\<open>catch\<close> block takes over and calls
  \<^verbatim>\<open>process.exit(0)\<close>. Without the bundle, the script looks at \<^verbatim>\<open>index.d.ts\<close>: when
  that file is present, the target receives the declaration combined from the constituent
  files that exist (when reading and writing succeed); when it is absent, the target
  receives the stub re-export, whether or not other constituent files are present.
\<close>

theorem copy_types_never_fails:
  "exit_status (ending (copy_types c projectRoot d)) = 0 \<and>
   (ending (copy_types c projectRoot d) = ProcessExit 0
      \<longleftrightarrow> (\<exists>e. snd (try_block c projectRoot d) = Inl e)) \<and>
   (\<not> existsSync d (sourcePath projectRoot) \<longrightarrow>
    existsSync d (indexPath projectRoot) \<longrightarrow>
    (\<forall>f \<in> set files. read_fault d (join (distDir projectRoot) f) = None) \<longrightarrow>
    write_fault d (targetPath projectRoot) = None \<longrightarrow>
      contents (disk_after (copy_types c projectRoot d)) (targetPath projectRoot)
        = Some (encode c
                 (lit ''// Auto-generated type definitions for rls-dsl\<newline>\<newline>'' @
                  concat (map (\<lambda>f. inline_declarations
                                      (decode c (the (contents d
                                                       (join (distDir projectRoot) f))))
                                    @ lit ''\<newline>\<newline>'')
                            (filter (\<lambda>f. existsSync d (join (distDir projectRoot) f))
                               files))))) \<and>
   (\<not> existsSync d (sourcePath projectRoot) \<longrightarrow>
    \<not> existsSync d (indexPath projectRoot) \<longrightarrow>
    write_fault d (targetPath projectRoot) = None \<longrightarrow>
      contents (disk_after (copy_types c projectRoot d)) (targetPath projectRoot)
        = Some (encode c
                 (lit ''// Fallback type definitions\<newline>export * from 'rls-dsl';\<newline>'')))"
  using copy_types_exit_zero [of c projectRoot d] copy_types_catch [of c projectRoot d]
    copy_types_regenerates [of d projectRoot c] copy_types_stub [of d projectRoot c]
  unfolding combined_header_def fallback_def
  by blast

theorem copy_types_never_fails_witness:
  "contents (disk_after (copy_types ascii_codec ''/app'' unbundled_disk))
     ''/app/src/rls-dsl-types.d.ts''
     = Some (''// Auto-generated type definitions for rls-dsl\<newline>\<newline>'' @
             ''\<newline>export type T = A;\<newline>'' @ ''\<newline>\<newline>'' @
             ''\<newline>export { a } from './a';\<newline>'' @ ''\<newline>\<newline>'') \<and>
   contents (disk_after (copy_types ascii_codec ''/app'' bare_disk))
     ''/app/src/rls-dsl-types.d.ts''
     = Some ''// Fallback type definitions\<newline>export * from 'rls-dsl';\<newline>'' \<and>
   ending (copy_types ascii_codec ''/app'' locked_disk) = ProcessExit 0 \<and>
   exit_status (ending (copy_types ascii_codec ''/app'' locked_disk)) = 0"
proof -
  have target: "targetPath ''/app'' = ''/app/src/rls-dsl-types.d.ts''"
    by (simp add: targetPath_def join_def)
  have u1: "\<not> existsSync unbundled_disk (sourcePath ''/app'')"
    by (simp add: existsSync_def unbundled_disk_def sourcePath_def join_def)
  have u2: "existsSync unbundled_disk (indexPath ''/app'')"
    by (simp add: existsSync_def unbundled_disk_def indexPath_def join_def)
  have u3: "\<forall>f \<in> set files. read_fault unbundled_disk (join (distDir ''/app'') f) = None"
    by (simp add: unbundled_disk_def)
  have u4: "write_fault unbundled_disk (targetPath ''/app'') = None"
    by (simp add: unbundled_disk_def)
  have "contents (disk_after (copy_types ascii_codec ''/app'' unbundled_disk))
          (targetPath ''/app'')
          = Some (encode ascii_codec
                   (lit ''// Auto-generated type definitions for rls-dsl\<newline>\<newline>'' @
                    concat (map (\<lambda>f. inline_declarations
                                        (decode ascii_codec
                                           (the (contents unbundled_disk
                                                   (join (distDir ''/app'') f))))
                                      @ lit ''\<newline>\<newline>'')
                              (filter (\<lambda>f. existsSync unbundled_disk
                                              (join (distDir ''/app'') f))
                                 files))))"
    using copy_types_never_fails [of ascii_codec "''/app''" unbundled_disk] u1 u2 u3 u4
    by blast
  moreover have "filter (\<lambda>f. existsSync unbundled_disk (join (distDir ''/app'') f)) files
                   = [''types.d.ts'', ''index.d.ts'']"
    by (simp add: files_def existsSync_def unbundled_disk_def distDir_def join_def)
  moreover have "inline_declarations
                   (decode ascii_codec
                      (the (contents unbundled_disk (join (distDir ''/app'') ''types.d.ts''))))
                   = lit ''\<newline>export type T = A;\<newline>''"
    by (simp add: unbundled_disk_def distDir_def join_def decode_ascii lit_def
        inline_declarations_def matches_import_def matches_export_all_def
        is_line_terminator_def)
  moreover have "inline_declarations
                   (decode ascii_codec
                      (the (contents unbundled_disk (join (distDir ''/app'') ''index.d.ts''))))
                   = lit ''\<newline>export { a } from './a';\<newline>''"
    by (simp add: unbundled_disk_def distDir_def join_def decode_ascii lit_def
        inline_declarations_def matches_import_def matches_export_all_def
        is_line_terminator_def)
  ultimately have "contents (disk_after (copy_types ascii_codec ''/app'' unbundled_disk))
                     (targetPath ''/app'')
     = Some (encode ascii_codec
              (lit (''// Auto-generated type definitions for rls-dsl\<newline>\<newline>'' @
                    ''\<newline>export type T = A;\<newline>'' @ ''\<newline>\<newline>'' @
                    ''\<newline>export { a } from './a';\<newline>'' @ ''\<newline>\<newline>'')))"
    by (simp add: lit_def)
  then have first: "contents (disk_after (copy_types ascii_codec ''/app'' unbundled_disk))
                      ''/app/src/rls-dsl-types.d.ts''
     = Some (''// Auto-generated type definitions for rls-dsl\<newline>\<newline>'' @
             ''\<newline>export type T = A;\<newline>'' @ ''\<newline>\<newline>'' @
             ''\<newline>export { a } from './a';\<newline>'' @ ''\<newline>\<newline>'')"
    unfolding encode_ascii target .
  have b1: "\<not> existsSync bare_disk (sourcePath ''/app'')"
    by (simp add: existsSync_def bare_disk_def)
  have b2: "\<not> existsSync bare_disk (indexPath ''/app'')"
    by (simp add: existsSync_def bare_disk_def)
  have b3: "write_fault bare_disk (targetPath ''/app'') = None"
    by (simp add: bare_disk_def)
  have "contents (disk_after (copy_types ascii_codec ''/app'' bare_disk)) (targetPath ''/app'')
          = Some (encode ascii_codec
                   (lit ''// Fallback type definitions\<newline>export * from 'rls-dsl';\<newline>''))"
    using copy_types_never_fails [of ascii_codec "''/app''" bare_disk] b1 b2 b3 by blast
  then have second: "contents (disk_after (copy_types ascii_codec ''/app'' bare_disk))
                       ''/app/src/rls-dsl-types.d.ts''
     = Some ''// Fallback type definitions\<newline>export * from 'rls-dsl';\<newline>''"
    unfolding encode_ascii target .
  have "snd (try_block ascii_codec ''/app'' locked_disk)
          = Inl (NodeError (''EACCES: permission denied, open '' @
                            quoted ''/app/src/rls-dsl-types.d.ts''))"
    by (simp add: try_block_def existsSync_def locked_disk_def writeFileSync_def target)
  then have third: "ending (copy_types ascii_codec ''/app'' locked_disk) = ProcessExit 0"
    using copy_types_never_fails [of ascii_codec "''/app''" locked_disk] by metis
  have fourth: "exit_status (ending (copy_types ascii_codec ''/app'' locked_disk)) = 0"
    using copy_types_never_fails [of ascii_codec "''/app''" locked_disk] by blast
  from first second third fourth show ?thesis
    by blast
qed

end
